theory Spec2Isabelle
  imports Complex_Main
begin

section \<open>JavaScript numbers\<close>

text \<open>
  The simulator of \<^verbatim>\<open>src/hooks/useSimulator.ts\<close> computes with JavaScript numbers.
  They are modelled as the real numbers extended by the special values of IEEE 754
  (\<open>PInf\<close> for \<^verbatim>\<open>Infinity\<close>, \<open>NInf\<close> for \<^verbatim>\<open>-Infinity\<close>, \<open>NaN\<close>), so that a
  division by zero, \<^verbatim>\<open>Math.max()\<close> of no arguments and a comparison with \<^verbatim>\<open>NaN\<close>
  give what the source gives. Arithmetic on finite values is exact: the rounding and the
  overflow of doubles are not modelled, and neither is the sign of zero.
\<close>

datatype jsnum = Fin real | PInf | NInf | NaN

fun jsneg :: "jsnum \<Rightarrow> jsnum" where
  "jsneg (Fin a) = Fin (- a)"
| "jsneg PInf = NInf"
| "jsneg NInf = PInf"
| "jsneg NaN = NaN"

fun jsadd :: "jsnum \<Rightarrow> jsnum \<Rightarrow> jsnum" where
  "jsadd (Fin a) (Fin b) = Fin (a + b)"
| "jsadd (Fin a) PInf = PInf"
| "jsadd (Fin a) NInf = NInf"
| "jsadd PInf (Fin b) = PInf"
| "jsadd PInf PInf = PInf"
| "jsadd PInf NInf = NaN"
| "jsadd NInf (Fin b) = NInf"
| "jsadd NInf PInf = NaN"
| "jsadd NInf NInf = NInf"
| "jsadd NaN y = NaN"
| "jsadd x NaN = NaN"

fun jsabs :: "jsnum \<Rightarrow> jsnum" where
  "jsabs (Fin a) = Fin \<bar>a\<bar>"
| "jsabs PInf = PInf"
| "jsabs NInf = PInf"
| "jsabs NaN = NaN"

definition jssub :: "jsnum \<Rightarrow> jsnum \<Rightarrow> jsnum" where
  "jssub x y = jsadd x (jsneg y)"

text \<open>The sign of a product or quotient with an infinite operand.\<close>

definition signed_inf :: "bool \<Rightarrow> jsnum" where
  "signed_inf positive = (if positive then PInf else NInf)"

fun jsmul :: "jsnum \<Rightarrow> jsnum \<Rightarrow> jsnum" where
  "jsmul (Fin a) (Fin b) = Fin (a * b)"
| "jsmul (Fin a) PInf = (if a = 0 then NaN else signed_inf (0 < a))"
| "jsmul (Fin a) NInf = (if a = 0 then NaN else signed_inf (a < 0))"
| "jsmul PInf (Fin b) = (if b = 0 then NaN else signed_inf (0 < b))"
| "jsmul NInf (Fin b) = (if b = 0 then NaN else signed_inf (b < 0))"
| "jsmul PInf PInf = PInf"
| "jsmul PInf NInf = NInf"
| "jsmul NInf PInf = NInf"
| "jsmul NInf NInf = PInf"
| "jsmul NaN y = NaN"
| "jsmul x NaN = NaN"

fun jsdiv :: "jsnum \<Rightarrow> jsnum \<Rightarrow> jsnum" where
  "jsdiv (Fin a) (Fin b) =
     (if b = 0 then (if a = 0 then NaN else signed_inf (0 < a)) else Fin (a / b))"
| "jsdiv (Fin a) PInf = Fin 0"
| "jsdiv (Fin a) NInf = Fin 0"
| "jsdiv PInf (Fin b) = signed_inf (0 \<le> b)"
| "jsdiv NInf (Fin b) = signed_inf (b < 0)"
| "jsdiv PInf PInf = NaN"
| "jsdiv PInf NInf = NaN"
| "jsdiv NInf PInf = NaN"
| "jsdiv NInf NInf = NaN"
| "jsdiv NaN y = NaN"
| "jsdiv x NaN = NaN"

text \<open>\<^verbatim>\<open>Math.floor\<close>: the special values are returned as they are.\<close>

fun jsfloor :: "jsnum \<Rightarrow> jsnum" where
  "jsfloor (Fin a) = Fin (of_int \<lfloor>a\<rfloor>)"
| "jsfloor PInf = PInf"
| "jsfloor NInf = NInf"
| "jsfloor NaN = NaN"

text \<open>The comparisons \<^verbatim>\<open><\<close> and \<^verbatim>\<open><=\<close>: false as soon as an operand is \<^verbatim>\<open>NaN\<close>.\<close>

fun jslt :: "jsnum \<Rightarrow> jsnum \<Rightarrow> bool" where
  "jslt (Fin a) (Fin b) = (a < b)"
| "jslt (Fin a) PInf = True"
| "jslt (Fin a) NInf = False"
| "jslt PInf y = False"
| "jslt NInf (Fin b) = True"
| "jslt NInf PInf = True"
| "jslt NInf NInf = False"
| "jslt NaN y = False"
| "jslt x NaN = False"

fun jsle :: "jsnum \<Rightarrow> jsnum \<Rightarrow> bool" where
  "jsle (Fin a) (Fin b) = (a \<le> b)"
| "jsle (Fin a) PInf = True"
| "jsle (Fin a) NInf = False"
| "jsle PInf (Fin b) = False"
| "jsle PInf PInf = True"
| "jsle PInf NInf = False"
| "jsle NInf (Fin b) = True"
| "jsle NInf PInf = True"
| "jsle NInf NInf = True"
| "jsle NaN y = False"
| "jsle x NaN = False"

definition jsgt :: "jsnum \<Rightarrow> jsnum \<Rightarrow> bool" where
  "jsgt x y = jslt y x"

definition jsge :: "jsnum \<Rightarrow> jsnum \<Rightarrow> bool" where
  "jsge x y = jsle y x"


text \<open>
  \<^verbatim>\<open>Math.max(...xs)\<close> and \<^verbatim>\<open>Math.min(...xs)\<close>: \<^verbatim>\<open>-Infinity\<close> and \<^verbatim>\<open>Infinity\<close> for no
  argument, \<^verbatim>\<open>NaN\<close> as soon as an argument is \<^verbatim>\<open>NaN\<close>.
\<close>

definition max2 :: "jsnum \<Rightarrow> jsnum \<Rightarrow> jsnum" where
  "max2 x y = (if x = NaN \<or> y = NaN then NaN else if jslt x y then y else x)"






section \<open>Arrays\<close>

text \<open>
  \<^verbatim>\<open>xs[i]\<close> is \<^verbatim>\<open>undefined\<close> outside the array; \<^verbatim>\<open>xs.slice(a, b)\<close> with
  \<open>0 \<le> a\<close> clamps to the array's end; \<^verbatim>\<open>xs.findIndex(p)\<close> is \<open>-1\<close> when no element
  satisfies \<open>p\<close>.
\<close>

definition elem_at :: "'a list \<Rightarrow> nat \<Rightarrow> 'a option" where
  "elem_at xs i = (if i < length xs then Some (xs ! i) else None)"


fun findIndexFrom :: "('a \<Rightarrow> bool) \<Rightarrow> nat \<Rightarrow> 'a list \<Rightarrow> int" where
  "findIndexFrom p i [] = - 1"
| "findIndexFrom p i (x # xs) = (if p x then int i else findIndexFrom p (Suc i) xs)"

definition findIndex :: "('a \<Rightarrow> bool) \<Rightarrow> 'a list \<Rightarrow> int" where
  "findIndex p xs = findIndexFrom p 0 xs"

section \<open>The indicator pipeline\<close>







text \<open>
  \<^verbatim>\<open>computeRSI(closes, window)\<close>: Wilder's smoothing. \<open>rsi_loop\<close> is the body of the loop
  at index \<open>i \<ge> 1\<close>, with the previous close \<open>p\<close> and the running \<open>gain\<close> and \<open>loss\<close>.
\<close>

definition rsi_of :: "jsnum \<Rightarrow> jsnum \<Rightarrow> jsnum" where
  "rsi_of avgGain avgLoss =
    (let rs = (if avgLoss = Fin 0 then PInf else jsdiv avgGain avgLoss)
     in jssub (Fin 100) (jsdiv (Fin 100) (jsadd (Fin 1) rs)))"

fun rsi_loop :: "nat \<Rightarrow> nat \<Rightarrow> jsnum \<Rightarrow> jsnum \<Rightarrow> jsnum \<Rightarrow> jsnum list \<Rightarrow> jsnum list" where
  "rsi_loop window i gain loss p [] = []"
| "rsi_loop window i gain loss p (c # rest) =
    (let change = jssub c p;
         up = max2 change (Fin 0);
         down = max2 (jsneg change) (Fin 0)
     in if i \<le> window then
          (let gain1 = jsadd gain up; loss1 = jsadd loss down in
           if i = window then
             (let avgGain = jsdiv gain1 (Fin (real window));
                  avgLoss = jsdiv loss1 (Fin (real window))
              in rsi_of avgGain avgLoss # rsi_loop window (i + 1) avgGain avgLoss c rest)
           else Fin 50 # rsi_loop window (i + 1) gain1 loss1 c rest)
        else
          (let avgGain = jsdiv (jsadd (jsmul gain (Fin (real window - 1))) up) (Fin (real window));
               avgLoss = jsdiv (jsadd (jsmul loss (Fin (real window - 1))) down) (Fin (real window))
           in rsi_of avgGain avgLoss # rsi_loop window (i + 1) avgGain avgLoss c rest))"

definition computeRSI :: "jsnum list \<Rightarrow> nat \<Rightarrow> jsnum list" where
  "computeRSI closes window =
    (case closes of [] \<Rightarrow> [] | c # rest \<Rightarrow> Fin 50 # rsi_loop window 1 (Fin 0) (Fin 0) c rest)"

section \<open>The data model\<close>

text \<open>
  A \<^verbatim>\<open>Candle\<close> with its optional indicator fields (\<open>None\<close> is \<^verbatim>\<open>undefined\<close>),
  the points of the RSI and equity series, and a \<^verbatim>\<open>Trade\<close>.
\<close>

record Candle =
  timestamp :: string
  open' :: jsnum
  high :: jsnum
  low :: jsnum
  close :: jsnum
  volume :: jsnum
  smaShort :: "jsnum option"
  smaLong :: "jsnum option"
  emaShort :: "jsnum option"
  emaLong :: "jsnum option"
  macdLine :: "jsnum option"
  macdSignal :: "jsnum option"
  macdHistogram :: "jsnum option"
  bollingerUpper :: "jsnum option"
  bollingerMiddle :: "jsnum option"
  bollingerLower :: "jsnum option"
  stochK :: "jsnum option"
  stochD :: "jsnum option"

record RsiPoint =
  rsi_timestamp :: string
  rsi_value :: jsnum

record EquityPoint =
  equity_timestamp :: string
  equity_value :: jsnum

datatype Action = BUY | SELL | HOLD

datatype StrategyName =
  SMA_CROSSOVER | EMA_CROSSOVER | RSI | MACD | BOLLINGER_BANDS | STOCHASTIC
| MEAN_REVERSION | BUY_AND_HOLD

text \<open>
  The reason of a decision is a template string. It is represented by its template and
  the numbers the source substitutes into it, in the order of the template; the
  formatting of a number by \<^verbatim>\<open>toFixed\<close> is not modelled.
\<close>

datatype Reason =
  No_candle
| SMA_bullish_crossover jsnum jsnum
| SMA_bearish_crossover jsnum jsnum
| No_SMA_crossover_signal
| EMA_bullish_crossover jsnum jsnum
| EMA_bearish_crossover jsnum jsnum
| No_EMA_crossover_signal
| RSI_oversold_signal jsnum
| RSI_overbought_signal jsnum
| RSI_neutral jsnum
| MACD_bullish_crossover jsnum jsnum
| MACD_bearish_crossover jsnum jsnum
| No_MACD_crossover_signal
| Price_at_lower_Bollinger_Band jsnum jsnum
| Price_at_upper_Bollinger_Band jsnum jsnum
| Price_within_Bollinger_Bands
| Stochastic_oversold jsnum jsnum
| Stochastic_overbought jsnum jsnum
| Stochastic_in_neutral_range
| Price_below_MA jsnum
| Price_above_MA jsnum
| Price_near_moving_average
| Initial_buy_and_hold
| Hold_position

type_synonym Decision = "Action \<times> Reason"

record Trade =
  trade_index :: nat
  trade_type :: Action
  trade_price :: jsnum
  trade_reason :: Reason

text \<open>
  \<^verbatim>\<open>lastExplanation\<close>: the empty string, the decision's reason, or the text
  \<^verbatim>\<open>BUY qty @ $price - reason\<close> (\<^verbatim>\<open>SELL shares @ $price - reason\<close>) of an executed trade.
\<close>

datatype Explanation =
  Empty_explanation
| Reason_only Reason
| BUY_at jsnum jsnum Reason
| SELL_at jsnum jsnum Reason

text \<open>Reading a property of \<^verbatim>\<open>undefined\<close> raises a \<^verbatim>\<open>TypeError\<close>.\<close>

datatype js_error = TypeError

section \<open>The decision function\<close>

text \<open>
  \<^verbatim>\<open>decide(strategy, idx, candles, rsi)\<close>. \<open>prev\<close> is \<^verbatim>\<open>candles[idx - 1]\<close>, which is
  \<^verbatim>\<open>undefined\<close> at index 0; \<^verbatim>\<open>prev?.smaShort\<close> is then \<^verbatim>\<open>undefined\<close> too. Under the
  RSI strategy \<^verbatim>\<open>rsi[idx]\<close> may lie outside the array: both comparisons with
  \<^verbatim>\<open>undefined\<close> are false and \<^verbatim>\<open>value.toFixed(1)\<close> raises. The \<^verbatim>\<open>default\<close>
  branch of the switch is not reached by a value of type \<open>StrategyName\<close>.
\<close>

definition prev_field :: "Candle option \<Rightarrow> (Candle \<Rightarrow> jsnum option) \<Rightarrow> jsnum option" where
  "prev_field prev f = (case prev of None \<Rightarrow> None | Some p \<Rightarrow> f p)"

definition decide :: "StrategyName \<Rightarrow> nat \<Rightarrow> Candle list \<Rightarrow> jsnum list \<Rightarrow> js_error + Decision" where
  "decide strategy idx candles rsi =
    (let prev = (if idx = 0 then None else elem_at candles (idx - 1)) in
     case elem_at candles idx of
       None \<Rightarrow> Inr (HOLD, No_candle)
     | Some c \<Rightarrow>
        (case strategy of
           SMA_CROSSOVER \<Rightarrow>
             (if smaShort c \<noteq> None \<and> smaLong c \<noteq> None
                 \<and> prev_field prev smaShort \<noteq> None \<and> prev_field prev smaLong \<noteq> None
              then
                (let cs = the (smaShort c); cl = the (smaLong c);
                     ps = the (prev_field prev smaShort); pl = the (prev_field prev smaLong)
                 in if jsle ps pl \<and> jsgt cs cl then Inr (BUY, SMA_bullish_crossover cs cl)
                    else if jsge ps pl \<and> jslt cs cl then Inr (SELL, SMA_bearish_crossover cs cl)
                    else Inr (HOLD, No_SMA_crossover_signal))
              else Inr (HOLD, No_SMA_crossover_signal))
         | EMA_CROSSOVER \<Rightarrow>
             (if emaShort c \<noteq> None \<and> emaLong c \<noteq> None
                 \<and> prev_field prev emaShort \<noteq> None \<and> prev_field prev emaLong \<noteq> None
              then
                (let cs = the (emaShort c); cl = the (emaLong c);
                     ps = the (prev_field prev emaShort); pl = the (prev_field prev emaLong)
                 in if jsle ps pl \<and> jsgt cs cl then Inr (BUY, EMA_bullish_crossover cs cl)
                    else if jsge ps pl \<and> jslt cs cl then Inr (SELL, EMA_bearish_crossover cs cl)
                    else Inr (HOLD, No_EMA_crossover_signal))
              else Inr (HOLD, No_EMA_crossover_signal))
         | RSI \<Rightarrow>
             (case elem_at rsi idx of
                None \<Rightarrow> Inl TypeError
              | Some v \<Rightarrow>
                  if jslt v (Fin 30) then Inr (BUY, RSI_oversold_signal v)
                  else if jsgt v (Fin 70) then Inr (SELL, RSI_overbought_signal v)
                  else Inr (HOLD, RSI_neutral v))
         | MACD \<Rightarrow>
             (if macdLine c \<noteq> None \<and> macdSignal c \<noteq> None
                 \<and> prev_field prev macdLine \<noteq> None \<and> prev_field prev macdSignal \<noteq> None
              then
                (let cm = the (macdLine c); cg = the (macdSignal c);
                     pm = the (prev_field prev macdLine); pg = the (prev_field prev macdSignal)
                 in if jsle pm pg \<and> jsgt cm cg then Inr (BUY, MACD_bullish_crossover cm cg)
                    else if jsge pm pg \<and> jslt cm cg then Inr (SELL, MACD_bearish_crossover cm cg)
                    else Inr (HOLD, No_MACD_crossover_signal))
              else Inr (HOLD, No_MACD_crossover_signal))
         | BOLLINGER_BANDS \<Rightarrow>
             (if bollingerUpper c \<noteq> None \<and> bollingerLower c \<noteq> None
              then
                (let up = the (bollingerUpper c); lo = the (bollingerLower c)
                 in if jsle (close c) lo then Inr (BUY, Price_at_lower_Bollinger_Band (close c) lo)
                    else if jsge (close c) up then Inr (SELL, Price_at_upper_Bollinger_Band (close c) up)
                    else Inr (HOLD, Price_within_Bollinger_Bands))
              else Inr (HOLD, Price_within_Bollinger_Bands))
         | STOCHASTIC \<Rightarrow>
             (if stochK c \<noteq> None \<and> stochD c \<noteq> None
              then
                (let k = the (stochK c); d = the (stochD c)
                 in if jslt k (Fin 20) \<and> jslt d (Fin 20) then Inr (BUY, Stochastic_oversold k d)
                    else if jsgt k (Fin 80) \<and> jsgt d (Fin 80) then Inr (SELL, Stochastic_overbought k d)
                    else Inr (HOLD, Stochastic_in_neutral_range))
              else Inr (HOLD, Stochastic_in_neutral_range))
         | MEAN_REVERSION \<Rightarrow>
             (if bollingerMiddle c \<noteq> None
              then
                (let mid = the (bollingerMiddle c);
                     deviation = jsmul (jsdiv (jssub (close c) mid) mid) (Fin 100)
                 in if jslt deviation (Fin (- 2)) then Inr (BUY, Price_below_MA (jsabs deviation))
                    else if jsgt deviation (Fin 2) then Inr (SELL, Price_above_MA deviation)
                    else Inr (HOLD, Price_near_moving_average))
              else Inr (HOLD, Price_near_moving_average))
         | BUY_AND_HOLD \<Rightarrow>
             (if idx = 0 then Inr (BUY, Initial_buy_and_hold)
              else Inr (HOLD, Hold_position))))"

section \<open>The execution state machine\<close>

text \<open>
  The fields of the store that \<^verbatim>\<open>step\<close> and \<^verbatim>\<open>reset\<close> read or write, and the two
  fields of the playback controller. The dataset catalogue and the chart series of the
  store are neither read nor written by them and are left out.
\<close>

record SimulatorState =
  candles :: "Candle list"
  rsiSeries :: "RsiPoint list"
  equitySeries :: "EquityPoint list"
  trades :: "Trade list"
  currentIndex :: nat
  isPlaying :: bool
  speedMs :: nat
  cash :: jsnum
  shares :: jsnum
  lastExplanation :: Explanation
  strategyName :: StrategyName
  portfolioValue :: jsnum

text \<open>The guard of \<^verbatim>\<open>step\<close>: \<^verbatim>\<open>currentIndex >= candles.length - 1\<close>, over the integers.\<close>

definition atEnd :: "SimulatorState \<Rightarrow> bool" where
  "atEnd s = (int (length (candles s)) - 1 \<le> int (currentIndex s))"

text \<open>
  \<^verbatim>\<open>step()\<close>. An exception of \<^verbatim>\<open>decide\<close> leaves the store as it was, since it is raised
  before anything is written. \<^verbatim>\<open>trades.push\<close> followed by \<^verbatim>\<open>trades: [...trades]\<close>
  is the append of one trade.
\<close>

definition step :: "SimulatorState \<Rightarrow> js_error + SimulatorState" where
  "step s =
    (if atEnd s then Inr s
     else
       (let nextIndex = currentIndex s + 1 in
        case decide (strategyName s) nextIndex (candles s) (map rsi_value (rsiSeries s)) of
          Inl e \<Rightarrow> Inl e
        | Inr decision \<Rightarrow>
            (let price = close (candles s ! nextIndex);
                 (newCash, newShares, newTrades, explanation) =
                   (if fst decision = BUY \<and> jsge (cash s) price then
                      (let qty = jsfloor (jsdiv (cash s) price) in
                       if jsgt qty (Fin 0) then
                         (jssub (cash s) (jsmul qty price),
                          jsadd (shares s) qty,
                          trades s @ [\<lparr>trade_index = nextIndex, trade_type = BUY,
                                       trade_price = price, trade_reason = snd decision\<rparr>],
                          BUY_at qty price (snd decision))
                       else (cash s, shares s, trades s, Reason_only (snd decision)))
                    else if fst decision = SELL \<and> jsgt (shares s) (Fin 0) then
                      (jsadd (cash s) (jsmul (shares s) price),
                       Fin 0,
                       trades s @ [\<lparr>trade_index = nextIndex, trade_type = SELL,
                                    trade_price = price, trade_reason = snd decision\<rparr>],
                       SELL_at (shares s) price (snd decision))
                    else (cash s, shares s, trades s, Reason_only (snd decision)));
                 value = jsadd newCash (jsmul newShares price)
             in Inr (s\<lparr>currentIndex := nextIndex, cash := newCash, shares := newShares,
                       lastExplanation := explanation, trades := newTrades,
                       portfolioValue := value,
                       equitySeries := equitySeries s @
                         [\<lparr>equity_timestamp = timestamp (candles s ! nextIndex),
                           equity_value = value\<rparr>]\<rparr>))))"

text \<open>
  \<^verbatim>\<open>reset()\<close>. The start index is the first index whose candle has both SMA values, or 0;
  the equity series is seeded only when the candle series is not empty.
\<close>

definition startIndexOf :: "Candle list \<Rightarrow> nat" where
  "startIndexOf cs =
    (let firstValid = findIndex (\<lambda>c. smaShort c \<noteq> None \<and> smaLong c \<noteq> None) cs
     in if firstValid = - 1 then 0 else nat firstValid)"

definition reset :: "SimulatorState \<Rightarrow> SimulatorState" where
  "reset s =
    (let startIndex = startIndexOf (candles s) in
     s\<lparr>currentIndex := startIndex, trades := [], cash := Fin 10000, shares := Fin 0,
       lastExplanation := Empty_explanation, portfolioValue := Fin 10000,
       equitySeries :=
         (if length (candles s) \<noteq> 0
          then [\<lparr>equity_timestamp = timestamp (candles s ! startIndex),
                 equity_value = Fin 10000\<rparr>]
          else [])\<rparr>)"

text \<open>\<open>n\<close> calls of \<^verbatim>\<open>step()\<close> in a row; an exception ends the sequence.\<close>

primrec steps :: "nat \<Rightarrow> SimulatorState \<Rightarrow> js_error + SimulatorState" where
  "steps 0 s = Inr s"
| "steps (Suc n) s = (case step s of Inl e \<Rightarrow> Inl e | Inr s' \<Rightarrow> steps n s')"

text \<open>
  Every store the loaders build has one RSI point per candle
  (\<^verbatim>\<open>rsiSeries = candles.map(...)\<close>), and the initial store has none of either.
\<close>

definition wellFormed :: "SimulatorState \<Rightarrow> bool" where
  "wellFormed s = (length (rsiSeries s) = length (candles s))"

text \<open>
  The full replay: \<^verbatim>\<open>step()\<close> until the current index is the last one, as the playback
  controller's tick does, which pauses once \<^verbatim>\<open>currentIndex >= candles.length - 1\<close>.
  Each step moves the index one candle closer to the end, so the replay returns.
\<close>

function replay :: "SimulatorState \<Rightarrow> js_error + SimulatorState" where
  "replay s =
    (if atEnd s then Inr s
     else case step s of Inl e \<Rightarrow> Inl e | Inr s' \<Rightarrow> replay s')"
  by pat_completeness auto
termination
  by (relation "measure (\<lambda>s. length (candles s) - currentIndex s)")
     (auto simp: step_def atEnd_def Let_def split: sum.splits prod.splits if_splits)

declare replay.simps [simp del]

definition run :: "SimulatorState \<Rightarrow> js_error + SimulatorState" where
  "run s = replay (reset s)"

section \<open>Properties of the ledger and of the strategies\<close>



text \<open>The two indicator values a crossover strategy compares on a candle.\<close>

definition required_indicators :: "StrategyName \<Rightarrow> (Candle \<Rightarrow> jsnum option) list" where
  "required_indicators strategy =
    (case strategy of
       SMA_CROSSOVER \<Rightarrow> [smaShort, smaLong]
     | EMA_CROSSOVER \<Rightarrow> [emaShort, emaLong]
     | MACD \<Rightarrow> [macdLine, macdSignal]
     | _ \<Rightarrow> [])"

definition indicators_defined :: "StrategyName \<Rightarrow> Candle \<Rightarrow> bool" where
  "indicators_defined strategy c = list_all (\<lambda>f. f c \<noteq> None) (required_indicators strategy)"

section \<open>Example stores\<close>

text \<open>A candle without indicator values whose four prices are \<open>p\<close>.\<close>

definition plain_candle :: "string \<Rightarrow> real \<Rightarrow> Candle" where
  "plain_candle t p =
    \<lparr>timestamp = t, open' = Fin p, high = Fin p, low = Fin p, close = Fin p, volume = Fin 0,
     smaShort = None, smaLong = None, emaShort = None, emaLong = None, macdLine = None,
     macdSignal = None, macdHistogram = None, bollingerUpper = None, bollingerMiddle = None,
     bollingerLower = None, stochK = None, stochD = None\<rparr>"

text \<open>The store as \<^verbatim>\<open>create\<close> initialises it, before any dataset is loaded.\<close>

definition initial_store :: SimulatorState where
  "initial_store =
    \<lparr>candles = [], rsiSeries = [], equitySeries = [], trades = [], currentIndex = 0,
     isPlaying = False, speedMs = 500, cash = Fin 10000, shares = Fin 0,
     lastExplanation = Empty_explanation, strategyName = SMA_CROSSOVER,
     portfolioValue = Fin 10000\<rparr>"

text \<open>
  A store of two candles at price \<open>p\<close> under the RSI strategy, standing at index 0 with
  the given cash and shares; \<open>r\<close> is the RSI value at index 1.
\<close>

definition two_candle_store :: "real \<Rightarrow> real \<Rightarrow> real \<Rightarrow> real \<Rightarrow> SimulatorState" where
  "two_candle_store c sh p r =
    \<lparr>candles = [plain_candle ''2024-01-01'' p, plain_candle ''2024-01-02'' p],
     rsiSeries = [\<lparr>rsi_timestamp = ''2024-01-01'', rsi_value = Fin 50\<rparr>,
                  \<lparr>rsi_timestamp = ''2024-01-02'', rsi_value = Fin r\<rparr>],
     equitySeries = [\<lparr>equity_timestamp = ''2024-01-01'', equity_value = Fin (c + sh * p)\<rparr>],
     trades = [], currentIndex = 0, isPlaying = False, speedMs = 500,
     cash = Fin c, shares = Fin sh, lastExplanation = Empty_explanation,
     strategyName = RSI, portfolioValue = Fin (c + sh * p)\<rparr>"

text \<open>
  The store after loading a series of closes under a strategy: one candle per close,
  the RSI series computed by \<^verbatim>\<open>computeRSI(closes, 14)\<close>, and the ledger as the loaders
  set it. The indicator fields of the candles are left undefined; on fewer than 20
  candles the long SMA is undefined everywhere in the source too, so that the replay
  starts at index 0.
\<close>

definition loaded_store :: "StrategyName \<Rightarrow> real list \<Rightarrow> SimulatorState" where
  "loaded_store strategy closes =
    (let cs = map (plain_candle ''t'') closes in
     \<lparr>candles = cs,
      rsiSeries = map2 (\<lambda>c v. \<lparr>rsi_timestamp = timestamp c, rsi_value = v\<rparr>) cs
                    (computeRSI (map close cs) 14),
      equitySeries = [\<lparr>equity_timestamp = ''t'', equity_value = Fin 10000\<rparr>],
      trades = [], currentIndex = 0, isPlaying = False, speedMs = 500,
      cash = Fin 10000, shares = Fin 0, lastExplanation = Empty_explanation,
      strategyName = strategy, portfolioValue = Fin 10000\<rparr>)"

text \<open>
  The two fields of the playback controller, set at once. \<^verbatim>\<open>step\<close> and \<^verbatim>\<open>reset\<close>
  carry them through and never read them.
\<close>

definition with_playback :: "bool \<Rightarrow> nat \<Rightarrow> SimulatorState \<Rightarrow> SimulatorState" where
  "with_playback b m s = s\<lparr>isPlaying := b, speedMs := m\<rparr>"

text \<open>
  A store of three candles whose second and third candle have both SMA values, in the
  middle of a run: one trade made, the index at the last candle.
\<close>

definition warmed_store :: SimulatorState where
  "warmed_store = initial_store
     \<lparr>candles := [plain_candle ''2024-01-01'' 100,
          (plain_candle ''2024-01-02'' 101)\<lparr>smaShort := Some (Fin 101), smaLong := Some (Fin 100)\<rparr>,
          (plain_candle ''2024-01-03'' 102)\<lparr>smaShort := Some (Fin 102), smaLong := Some (Fin 101)\<rparr>],
      rsiSeries := [\<lparr>rsi_timestamp = ''2024-01-01'', rsi_value = Fin 50\<rparr>,
                    \<lparr>rsi_timestamp = ''2024-01-02'', rsi_value = Fin 50\<rparr>,
                    \<lparr>rsi_timestamp = ''2024-01-03'', rsi_value = Fin 50\<rparr>],
      trades := [\<lparr>trade_index = 2, trade_type = BUY, trade_price = Fin 102,
                   trade_reason = Initial_buy_and_hold\<rparr>],
      cash := Fin 4, shares := Fin 98, currentIndex := 2\<rparr>"

section \<open>Verification: the ledger\<close>

lemma decide_total:
  "strategy \<noteq> RSI \<or> idx < length rsi \<or> length cs \<le> idx \<Longrightarrow> \<exists>d. decide strategy idx cs rsi = Inr d"
  by (cases strategy) (auto simp: decide_def Let_def elem_at_def split: option.splits)



text \<open>
  Claim C2. When the store is not at its last candle, the decision at the next index is
  SELL and shares are above zero, \<^verbatim>\<open>step()\<close> returns with cash increased by exactly
  the shares held times the close of the next candle, shares set to 0 (the whole
  position is sold), and exactly one SELL trade at the next index appended.
\<close>

theorem step_sell:
  assumes "\<not> atEnd s"
    and "decide (strategyName s) (currentIndex s + 1) (candles s) (map rsi_value (rsiSeries s))
           = Inr (SELL, r)"
    and "jsgt (shares s) (Fin 0)"
  shows "\<exists>s'. step s = Inr s' \<and>
     cash s' = jsadd (cash s) (jsmul (shares s) (close (candles s ! (currentIndex s + 1)))) \<and>
     shares s' = Fin 0 \<and>
     trades s' = trades s @ [\<lparr>trade_index = currentIndex s + 1, trade_type = SELL,
          trade_price = close (candles s ! (currentIndex s + 1)), trade_reason = r\<rparr>]"
  using assms by (simp add: step_def Let_def)

text \<open>With 50 shares and a price of 80, cash grows by 4000 (here from 1000 to 5000).\<close>

theorem step_sell_witness:
  "\<not> atEnd (two_candle_store 1000 50 80 75) \<and>
   decide RSI 1 (candles (two_candle_store 1000 50 80 75))
       (map rsi_value (rsiSeries (two_candle_store 1000 50 80 75)))
     = Inr (SELL, RSI_overbought_signal (Fin 75)) \<and>
   jsgt (shares (two_candle_store 1000 50 80 75)) (Fin 0) \<and>
   (\<exists>s'. step (two_candle_store 1000 50 80 75) = Inr s' \<and> cash s' = Fin (1000 + 4000) \<and>
      shares s' = Fin 0 \<and>
      trades s' = [\<lparr>trade_index = 1, trade_type = SELL, trade_price = Fin 80,
                    trade_reason = RSI_overbought_signal (Fin 75)\<rparr>])"
proof -
  let ?s = "two_candle_store 1000 50 80 75"
  have a: "\<not> atEnd ?s" by (simp add: atEnd_def two_candle_store_def)
  have d: "decide (strategyName ?s) (currentIndex ?s + 1) (candles ?s)
      (map rsi_value (rsiSeries ?s)) = Inr (SELL, RSI_overbought_signal (Fin 75))"
    by (simp add: decide_def two_candle_store_def elem_at_def plain_candle_def jsgt_def)
  have p: "jsgt (shares ?s) (Fin 0)" by (simp add: two_candle_store_def jsgt_def)
  from step_sell [OF a d p] a d p show ?thesis
    by (simp add: two_candle_store_def plain_candle_def)
qed

text \<open>
  Claim C5. When the current index is already the last candle or beyond it (which
  includes the store without candles), \<^verbatim>\<open>step()\<close> returns the store it was given:
  every field, the equity series and its length included, is as before.
\<close>

theorem step_at_end_noop: "atEnd s \<Longrightarrow> step s = Inr s"
  by (simp add: step_def)

theorem step_at_end_noop_witness:
  "atEnd ((two_candle_store 10000 0 100 20)\<lparr>currentIndex := 1\<rparr>) \<and>
   step ((two_candle_store 10000 0 100 20)\<lparr>currentIndex := 1\<rparr>)
     = Inr ((two_candle_store 10000 0 100 20)\<lparr>currentIndex := 1\<rparr>) \<and>
   atEnd initial_store \<and> step initial_store = Inr initial_store"
proof -
  have a: "atEnd ((two_candle_store 10000 0 100 20)\<lparr>currentIndex := 1\<rparr>)"
    by (simp add: atEnd_def two_candle_store_def)
  have b: "atEnd initial_store"
    by (simp add: atEnd_def initial_store_def)
  from step_at_end_noop [OF a] step_at_end_noop [OF b] a b show ?thesis by simp
qed

text \<open>
  Claim C6. Every \<^verbatim>\<open>step()\<close> on a store that is not at its last candle (and has one RSI
  point per candle, as every loaded store has) returns, whatever the decision and whether
  or not a trade executes, with exactly one equity point appended, whose value is the
  cash plus shares times price after the step and whose timestamp is that of the candle at
  index \<open>i + 1\<close>, and with the current index moved from \<open>i\<close> to \<open>i + 1\<close>.
\<close>

theorem step_appends_equity:
  assumes "\<not> atEnd s" and "wellFormed s"
  shows "\<exists>s'. step s = Inr s' \<and>
     equitySeries s' = equitySeries s @
       [\<lparr>equity_timestamp = timestamp (candles s ! (currentIndex s + 1)),
         equity_value = jsadd (cash s')
            (jsmul (shares s') (close (candles s ! (currentIndex s + 1))))\<rparr>] \<and>
     length (equitySeries s') = length (equitySeries s) + 1 \<and>
     currentIndex s' = currentIndex s + 1"
proof -
  from assms have "currentIndex s + 1 < length (map rsi_value (rsiSeries s))"
    by (simp add: atEnd_def wellFormed_def)
  then obtain d where
    "decide (strategyName s) (currentIndex s + 1) (candles s) (map rsi_value (rsiSeries s)) = Inr d"
    using decide_total by blast
  with assms(1) show ?thesis
    by (simp add: step_def Let_def split: prod.splits)
qed

theorem step_appends_equity_witness:
  "\<not> atEnd (two_candle_store 10000 0 100 20) \<and> wellFormed (two_candle_store 10000 0 100 20) \<and>
   (\<exists>s'. step (two_candle_store 10000 0 100 20) = Inr s' \<and>
      equitySeries s' = [\<lparr>equity_timestamp = ''2024-01-01'', equity_value = Fin 10000\<rparr>,
                         \<lparr>equity_timestamp = ''2024-01-02'', equity_value = Fin 10000\<rparr>] \<and>
      currentIndex s' = 1)"
proof -
  let ?s = "two_candle_store 10000 0 100 20"
  have a: "\<not> atEnd ?s" by (simp add: atEnd_def two_candle_store_def)
  have w: "wellFormed ?s" by (simp add: wellFormed_def two_candle_store_def)
  have "\<exists>s'. step ?s = Inr s' \<and> cash s' = Fin 0 \<and> shares s' = Fin 100"
    by (simp add: step_def atEnd_def decide_def two_candle_store_def elem_at_def
        plain_candle_def jsge_def jsgt_def jssub_def Let_def)
  with step_appends_equity [OF a w] a w show ?thesis
    by (auto simp: two_candle_store_def plain_candle_def)
qed

section \<open>Verification: the crossover strategies\<close>

lemma hold_cases:
  assumes "idx = 0 \<or> length cs \<le> idx \<or> f (cs ! idx) = None \<or> g (cs ! idx) = None
         \<or> f (cs ! (idx - 1)) = None \<or> g (cs ! (idx - 1)) = None"
  shows "elem_at cs idx = None \<or>
     (\<exists>c. elem_at cs idx = Some c \<and>
        \<not> (f c \<noteq> None \<and> g c \<noteq> None
           \<and> prev_field (if idx = 0 then None else elem_at cs (idx - 1)) f \<noteq> None
           \<and> prev_field (if idx = 0 then None else elem_at cs (idx - 1)) g \<noteq> None))"
  using assms by (auto simp: elem_at_def prev_field_def)

text \<open>
  Claim C8. Under the SMA crossover, EMA crossover and MACD strategies \<^verbatim>\<open>decide\<close>
  returns HOLD, never BUY or SELL, at index 0 (no previous candle), at an index without a
  candle, and whenever one of the strategy's two indicator values is undefined on the
  current candle or on the previous one.
\<close>

theorem crossover_holds_without_indicators:
  assumes "strategy = SMA_CROSSOVER \<or> strategy = EMA_CROSSOVER \<or> strategy = MACD"
    and "idx = 0 \<or> length cs \<le> idx \<or> \<not> indicators_defined strategy (cs ! idx)
         \<or> \<not> indicators_defined strategy (cs ! (idx - 1))"
  shows "\<exists>r. decide strategy idx cs rsi = Inr (HOLD, r)"
proof -
  from assms(1) consider (sma) "strategy = SMA_CROSSOVER" | (ema) "strategy = EMA_CROSSOVER"
    | (macd) "strategy = MACD" by blast
  then show ?thesis
  proof cases
    case sma
    with assms(2) have "idx = 0 \<or> length cs \<le> idx \<or> smaShort (cs ! idx) = None \<or> smaLong (cs ! idx) = None
         \<or> smaShort (cs ! (idx - 1)) = None \<or> smaLong (cs ! (idx - 1)) = None"
      by (auto simp: indicators_defined_def required_indicators_def)
    from hold_cases [OF this] show ?thesis
      unfolding sma decide_def Let_def by (elim disjE exE conjE) simp_all
  next
    case ema
    with assms(2) have "idx = 0 \<or> length cs \<le> idx \<or> emaShort (cs ! idx) = None \<or> emaLong (cs ! idx) = None
         \<or> emaShort (cs ! (idx - 1)) = None \<or> emaLong (cs ! (idx - 1)) = None"
      by (auto simp: indicators_defined_def required_indicators_def)
    from hold_cases [OF this] show ?thesis
      unfolding ema decide_def Let_def by (elim disjE exE conjE) simp_all
  next
    case macd
    with assms(2) have "idx = 0 \<or> length cs \<le> idx \<or> macdLine (cs ! idx) = None \<or> macdSignal (cs ! idx) = None
         \<or> macdLine (cs ! (idx - 1)) = None \<or> macdSignal (cs ! (idx - 1)) = None"
      by (auto simp: indicators_defined_def required_indicators_def)
    from hold_cases [OF this] show ?thesis
      unfolding macd decide_def Let_def by (elim disjE exE conjE) simp_all
  qed
qed

text \<open>
  At index 1 the current candle has both SMA values, in the order of a bullish crossover,
  but the previous candle has none: the decision is HOLD.
\<close>

theorem crossover_holds_without_indicators_witness:
  "\<not> indicators_defined SMA_CROSSOVER
       ([plain_candle ''2024-01-01'' 100,
         (plain_candle ''2024-01-02'' 100)\<lparr>smaShort := Some (Fin 2), smaLong := Some (Fin 1)\<rparr>]
        ! (1 - 1)) \<and>
   decide SMA_CROSSOVER 1
       [plain_candle ''2024-01-01'' 100,
        (plain_candle ''2024-01-02'' 100)\<lparr>smaShort := Some (Fin 2), smaLong := Some (Fin 1)\<rparr>]
       [] = Inr (HOLD, No_SMA_crossover_signal)"
proof -
  let ?cs = "[plain_candle ''2024-01-01'' 100,
        (plain_candle ''2024-01-02'' 100)\<lparr>smaShort := Some (Fin 2), smaLong := Some (Fin 1)\<rparr>]"
  have u: "\<not> indicators_defined SMA_CROSSOVER (?cs ! (1 - 1))"
    by (simp add: indicators_defined_def required_indicators_def plain_candle_def)
  then have "1 = (0::nat) \<or> length ?cs \<le> 1 \<or> \<not> indicators_defined SMA_CROSSOVER (?cs ! 1)
         \<or> \<not> indicators_defined SMA_CROSSOVER (?cs ! (1 - 1))"
    by blast
  from crossover_holds_without_indicators [OF _ this, of "[]"] u show ?thesis
    by (auto simp: decide_def elem_at_def prev_field_def plain_candle_def)
qed

section \<open>Verification: the stochastic oscillator\<close>













section \<open>Verification: reset\<close>

text \<open>\<^verbatim>\<open>findIndex\<close> returns \<open>-1\<close> or the first index whose element satisfies the test.\<close>

lemma findIndexFrom_bounds:
  "findIndexFrom p i xs = - 1 \<or> (int i \<le> findIndexFrom p i xs \<and> findIndexFrom p i xs < int i + int (length xs))"
proof (induction xs arbitrary: i)
  case Nil
  then show ?case by simp
next
  case (Cons x xs)
  from Cons.IH [of "Suc i"] show ?case by auto
qed

lemma findIndexFrom_none: "findIndexFrom p i xs = - 1 \<longleftrightarrow> (\<forall>x \<in> set xs. \<not> p x)"
proof (induction xs arbitrary: i)
  case Nil then show ?case by simp
next
  case (Cons x xs)
  have "findIndexFrom p (Suc i) xs = - 1 \<or> int (Suc i) \<le> findIndexFrom p (Suc i) xs"
    using findIndexFrom_bounds [of p "Suc i" xs] by auto
  with Cons show ?case by auto
qed

lemma findIndexFrom_first:
  "findIndexFrom p i xs \<noteq> - 1 \<Longrightarrow>
     p (xs ! (nat (findIndexFrom p i xs) - i)) \<and> (\<forall>j < nat (findIndexFrom p i xs) - i. \<not> p (xs ! j))"
proof (induction xs arbitrary: i)
  case Nil then show ?case by simp
next
  case (Cons x xs)
  show ?case
  proof (cases "p x")
    case True then show ?thesis by simp
  next
    case False
    with Cons.prems have ne: "findIndexFrom p (Suc i) xs \<noteq> - 1" by simp
    from findIndexFrom_bounds [of p "Suc i" xs] ne
    have ge: "int (Suc i) \<le> findIndexFrom p (Suc i) xs" by auto
    then have eq: "nat (findIndexFrom p (Suc i) xs) - i = Suc (nat (findIndexFrom p (Suc i) xs) - Suc i)"
      by linarith
    from Cons.IH [OF ne] False eq show ?thesis
      by (auto simp: less_Suc_eq_0_disj)
  qed
qed

lemma startIndexOf_none:
  "\<forall>c \<in> set cs. \<not> (smaShort c \<noteq> None \<and> smaLong c \<noteq> None) \<Longrightarrow> startIndexOf cs = 0"
  using findIndexFrom_none [of "\<lambda>c. smaShort c \<noteq> None \<and> smaLong c \<noteq> None" 0 cs]
  by (simp add: startIndexOf_def findIndex_def)

lemma startIndexOf_first:
  assumes "\<exists>c \<in> set cs. smaShort c \<noteq> None \<and> smaLong c \<noteq> None"
  shows "(smaShort (cs ! startIndexOf cs) \<noteq> None \<and> smaLong (cs ! startIndexOf cs) \<noteq> None) \<and>
     (\<forall>j < startIndexOf cs. \<not> (smaShort (cs ! j) \<noteq> None \<and> smaLong (cs ! j) \<noteq> None))"
proof -
  let ?p = "\<lambda>c. smaShort c \<noteq> None \<and> smaLong c \<noteq> None"
  from assms have ne: "findIndexFrom ?p 0 cs \<noteq> - 1"
    using findIndexFrom_none [of ?p 0 cs] by blast
  from findIndexFrom_first [OF ne] ne show ?thesis
    by (simp add: startIndexOf_def findIndex_def)
qed

lemma startIndexOf_less: "cs \<noteq> [] \<Longrightarrow> startIndexOf cs < length cs"
  using findIndexFrom_bounds [of "\<lambda>c. smaShort c \<noteq> None \<and> smaLong c \<noteq> None" 0 cs]
  by (auto simp: startIndexOf_def findIndex_def Let_def)

text \<open>
  Claim C4, as the code has it. After \<^verbatim>\<open>reset()\<close> the trade log is empty, cash is
  10000, shares are 0 and the current index is the start index: the first index whose
  candle has both the short and the long SMA, or 0 when no candle has. When the candle
  series is not empty, the equity series is exactly one seed point with the timestamp of
  the candle at the start index and the value 10000; when it is empty, the equity
  series is empty.
\<close>

theorem reset_result:
  "trades (reset s) = [] \<and> cash (reset s) = Fin 10000 \<and> shares (reset s) = Fin 0 \<and>
   currentIndex (reset s) = startIndexOf (candles s) \<and>
   (candles s = [] \<longrightarrow> equitySeries (reset s) = []) \<and>
   (candles s \<noteq> [] \<longrightarrow>
      startIndexOf (candles s) < length (candles s) \<and>
      equitySeries (reset s) =
        [\<lparr>equity_timestamp = timestamp (candles s ! startIndexOf (candles s)),
          equity_value = Fin 10000\<rparr>]) \<and>
   ((\<forall>c \<in> set (candles s). \<not> (smaShort c \<noteq> None \<and> smaLong c \<noteq> None)) \<longrightarrow>
      startIndexOf (candles s) = 0) \<and>
   ((\<exists>c \<in> set (candles s). smaShort c \<noteq> None \<and> smaLong c \<noteq> None) \<longrightarrow>
      (smaShort (candles s ! startIndexOf (candles s)) \<noteq> None \<and>
       smaLong (candles s ! startIndexOf (candles s)) \<noteq> None) \<and>
      (\<forall>j < startIndexOf (candles s).
         \<not> (smaShort (candles s ! j) \<noteq> None \<and> smaLong (candles s ! j) \<noteq> None)))"
proof -
  have a: "trades (reset s) = [] \<and> cash (reset s) = Fin 10000 \<and> shares (reset s) = Fin 0 \<and>
     currentIndex (reset s) = startIndexOf (candles s)"
    by (simp add: reset_def Let_def)
  have b: "candles s = [] \<longrightarrow> equitySeries (reset s) = []"
    by (simp add: reset_def Let_def)
  have c: "candles s \<noteq> [] \<longrightarrow>
      startIndexOf (candles s) < length (candles s) \<and>
      equitySeries (reset s) =
        [\<lparr>equity_timestamp = timestamp (candles s ! startIndexOf (candles s)),
          equity_value = Fin 10000\<rparr>]"
    using startIndexOf_less [of "candles s"] by (simp add: reset_def Let_def)
  from a b c startIndexOf_none [of "candles s"] startIndexOf_first [of "candles s"]
  show ?thesis by blast
qed

theorem reset_result_witness:
  "candles warmed_store \<noteq> [] \<and>
   trades (reset warmed_store) = [] \<and> cash (reset warmed_store) = Fin 10000 \<and>
   shares (reset warmed_store) = Fin 0 \<and> currentIndex (reset warmed_store) = 1 \<and>
   equitySeries (reset warmed_store) =
      [\<lparr>equity_timestamp = ''2024-01-02'', equity_value = Fin 10000\<rparr>]"
proof -
  have n: "candles warmed_store \<noteq> []" by (simp add: warmed_store_def)
  have i: "startIndexOf (candles warmed_store) = 1"
    by (simp add: startIndexOf_def findIndex_def warmed_store_def plain_candle_def)
  from reset_result [of warmed_store] n i show ?thesis
    by (simp add: warmed_store_def plain_candle_def)
qed

text \<open>
  The claim as stated fails for the empty candle series: \<^verbatim>\<open>reset()\<close> on the store as
  it is before any dataset is loaded leaves an equity series of length 0, not 1.
\<close>

theorem reset_empty_counterexample:
  "candles initial_store = [] \<and> equitySeries (reset initial_store) = [] \<and>
   length (equitySeries (reset initial_store)) \<noteq> 1"
  by (simp add: reset_def initial_store_def Let_def)

section \<open>Verification: the replay\<close>

text \<open>
  A step leaves the inputs of the replay alone, moves the index by one, and returns on
  every store with one RSI point per candle; so the replay reaches the last candle.
\<close>

lemma step_frame:
  assumes "step s = Inr t"
  shows "candles t = candles s \<and> rsiSeries t = rsiSeries s \<and> strategyName t = strategyName s \<and>
     isPlaying t = isPlaying s \<and> speedMs t = speedMs s"
  using assms by (auto simp: step_def Let_def split: if_splits sum.splits prod.splits)

lemma step_advances:
  assumes "\<not> atEnd s" "step s = Inr t"
  shows "currentIndex t = currentIndex s + 1"
  using assms by (auto simp: step_def Let_def split: if_splits sum.splits prod.splits)

lemma step_returns:
  assumes "wellFormed s"
  shows "\<exists>t. step s = Inr t \<and> wellFormed t"
proof (cases "atEnd s")
  case True
  with assms show ?thesis by (simp add: step_def)
next
  case False
  with assms have "currentIndex s + 1 < length (map rsi_value (rsiSeries s))"
    by (simp add: atEnd_def wellFormed_def)
  then obtain d where
    "decide (strategyName s) (currentIndex s + 1) (candles s) (map rsi_value (rsiSeries s)) = Inr d"
    using decide_total by blast
  with False assms show ?thesis
    by (simp add: step_def Let_def wellFormed_def split: prod.splits)
qed

lemma replay_returns: "wellFormed s \<Longrightarrow> \<exists>t. replay s = Inr t \<and> atEnd t"
proof (induction s rule: replay.induct)
  case (1 s)
  show ?case
  proof (cases "atEnd s")
    case True
    then show ?thesis by (simp add: replay.simps [of s])
  next
    case False
    from step_returns [OF "1.prems"] obtain t where t: "step s = Inr t" "wellFormed t" by blast
    from "1.IH" [OF False t(1) t(2)] False t(1) show ?thesis by (simp add: replay.simps [of s])
  qed
qed

lemma step_playback:
  "step (with_playback b m s) = map_sum id (with_playback b m) (step s)"
proof (cases "atEnd s")
  case True
  then show ?thesis by (simp add: step_def atEnd_def with_playback_def)
next
  case False
  show ?thesis
  proof (cases "decide (strategyName s) (currentIndex s + 1) (candles s) (map rsi_value (rsiSeries s))")
    case (Inl e)
    with False show ?thesis by (simp add: step_def atEnd_def with_playback_def)
  next
    case (Inr d)
    with False show ?thesis
      by (cases d) (simp add: step_def atEnd_def with_playback_def Let_def)
  qed
qed

lemma atEnd_playback: "atEnd (with_playback b m s) = atEnd s"
  by (simp add: atEnd_def with_playback_def)

lemma replay_playback:
  "replay (with_playback b m s) = map_sum id (with_playback b m) (replay s)"
proof (induction s rule: replay.induct)
  case (1 s)
  show ?case
  proof (cases "atEnd s")
    case True
    then show ?thesis
      by (simp add: replay.simps [of s] replay.simps [of "with_playback b m s"] atEnd_playback)
  next
    case False
    show ?thesis
    proof (cases "step s")
      case (Inl e)
      with False show ?thesis
        by (simp add: replay.simps [of s] replay.simps [of "with_playback b m s"]
            atEnd_playback step_playback)
    next
      case (Inr t)
      from "1.IH" [OF False Inr] False Inr show ?thesis
        by (simp add: replay.simps [of s] replay.simps [of "with_playback b m s"]
            atEnd_playback step_playback)
    qed
  qed
qed

lemma reset_inputs_only:
  assumes "candles s1 = candles s2" "rsiSeries s1 = rsiSeries s2" "strategyName s1 = strategyName s2"
  shows "reset s1 = with_playback (isPlaying s1) (speedMs s1) (reset s2)"
  using assms by (cases s1, cases s2) (simp add: reset_def with_playback_def Let_def)

text \<open>
  Claim C9. The full replay, \<^verbatim>\<open>reset()\<close> and then \<^verbatim>\<open>step()\<close> up to the last index, is a
  function of the candle series, the RSI series computed from it and the strategy alone:
  two stores that agree on these give the same trade log (indices, types, prices,
  reasons) and the same equity curve, whatever their cash, shares, trade log, equity
  series, current index, explanation and playback fields were before; and on a store with
  one RSI point per candle the replay returns, at the last candle. \<^verbatim>\<open>step\<close>,
  \<^verbatim>\<open>decide\<close> and \<^verbatim>\<open>reset\<close> read neither a clock nor a random source, which is why
  they are functions of the store here.
\<close>

theorem replay_deterministic:
  assumes "candles s1 = candles s2" "rsiSeries s1 = rsiSeries s2" "strategyName s1 = strategyName s2"
  shows "map_sum id (\<lambda>t. (trades t, equitySeries t)) (run s1)
        = map_sum id (\<lambda>t. (trades t, equitySeries t)) (run s2) \<and>
     (wellFormed s1 \<longrightarrow> (\<exists>t. run s1 = Inr t \<and> atEnd t))"
proof -
  have "run s1 = map_sum id (with_playback (isPlaying s1) (speedMs s1)) (run s2)"
    by (simp add: run_def reset_inputs_only [OF assms] replay_playback)
  then have same: "map_sum id (\<lambda>t. (trades t, equitySeries t)) (run s1)
        = map_sum id (\<lambda>t. (trades t, equitySeries t)) (run s2)"
    by (cases "run s2") (simp_all add: with_playback_def)
  have "wellFormed s1 \<longrightarrow> (\<exists>t. run s1 = Inr t \<and> atEnd t)"
  proof
    assume "wellFormed s1"
    then have "wellFormed (reset s1)" by (simp add: wellFormed_def reset_def Let_def)
    from replay_returns [OF this] show "\<exists>t. run s1 = Inr t \<and> atEnd t" by (simp add: run_def)
  qed
  with same show ?thesis by blast
qed

theorem replay_deterministic_witness:
  "candles (two_candle_store 10000 0 100 20) = candles ((two_candle_store 7 3 100 20)\<lparr>isPlaying := True\<rparr>) \<and>
   rsiSeries (two_candle_store 10000 0 100 20) = rsiSeries ((two_candle_store 7 3 100 20)\<lparr>isPlaying := True\<rparr>) \<and>
   strategyName (two_candle_store 10000 0 100 20) = strategyName ((two_candle_store 7 3 100 20)\<lparr>isPlaying := True\<rparr>) \<and>
   wellFormed (two_candle_store 10000 0 100 20) \<and>
   map_sum id (\<lambda>t. (trades t, equitySeries t)) (run ((two_candle_store 7 3 100 20)\<lparr>isPlaying := True\<rparr>))
     = Inr ([\<lparr>trade_index = 1, trade_type = BUY, trade_price = Fin 100,
               trade_reason = RSI_oversold_signal (Fin 20)\<rparr>],
            [\<lparr>equity_timestamp = ''2024-01-01'', equity_value = Fin 10000\<rparr>,
             \<lparr>equity_timestamp = ''2024-01-02'', equity_value = Fin 10000\<rparr>]) \<and>
   (\<exists>t. run (two_candle_store 10000 0 100 20) = Inr t \<and> atEnd t)"
proof -
  let ?s1 = "two_candle_store 10000 0 100 20"
  let ?s2 = "(two_candle_store 7 3 100 20)\<lparr>isPlaying := True\<rparr>"
  have c: "candles ?s1 = candles ?s2" and r: "rsiSeries ?s1 = rsiSeries ?s2"
    and n: "strategyName ?s1 = strategyName ?s2"
    by (simp_all add: two_candle_store_def)
  have w: "wellFormed ?s1" by (simp add: wellFormed_def two_candle_store_def)
  have e: "map_sum id (\<lambda>t. (trades t, equitySeries t)) (run ?s1)
     = Inr ([\<lparr>trade_index = 1, trade_type = BUY, trade_price = Fin 100,
               trade_reason = RSI_oversold_signal (Fin 20)\<rparr>],
            [\<lparr>equity_timestamp = ''2024-01-01'', equity_value = Fin 10000\<rparr>,
             \<lparr>equity_timestamp = ''2024-01-02'', equity_value = Fin 10000\<rparr>])"
    by (simp add: run_def replay.simps reset_def startIndexOf_def findIndex_def
        two_candle_store_def plain_candle_def step_def atEnd_def decide_def elem_at_def
        jsge_def jsgt_def jssub_def Let_def)
  from replay_deterministic [OF c r n] c r n w e show ?thesis by simp
qed

section \<open>Verification: buy and hold\<close>

lemma step_buy_and_hold:
  assumes "strategyName s = BUY_AND_HOLD"
  shows "\<exists>s'. step s = Inr s' \<and> strategyName s' = BUY_AND_HOLD \<and> trades s' = trades s \<and>
     cash s' = cash s \<and> shares s' = shares s"
  using assms by (simp add: step_def decide_def Let_def elem_at_def atEnd_def)

lemma steps_buy_and_hold:
  "strategyName s = BUY_AND_HOLD \<Longrightarrow>
   \<exists>s'. steps n s = Inr s' \<and> strategyName s' = BUY_AND_HOLD \<and> trades s' = trades s \<and>
     cash s' = cash s \<and> shares s' = shares s"
proof (induction n arbitrary: s)
  case 0
  then show ?case by simp
next
  case (Suc n)
  from step_buy_and_hold [OF Suc.prems] obtain t where
    t: "step s = Inr t" "strategyName t = BUY_AND_HOLD" "trades t = trades s"
       "cash t = cash s" "shares t = shares s" by blast
  from Suc.IH [OF t(2)] t show ?case by simp
qed

text \<open>
  Claim C10. Under the BUY_AND_HOLD strategy no trade is ever recorded: \<^verbatim>\<open>step()\<close>
  asks for the decision at the next index, which is at least 1, and the strategy buys only
  at index 0. After any reset and any number of steps the trade log is empty, cash is
  10000 and shares are 0.
\<close>

theorem buy_and_hold_never_trades:
  assumes "strategyName s = BUY_AND_HOLD"
  shows "\<exists>s'. steps n (reset s) = Inr s' \<and> trades s' = [] \<and> cash s' = Fin 10000 \<and> shares s' = Fin 0"
proof -
  have "strategyName (reset s) = BUY_AND_HOLD" using assms by (simp add: reset_def Let_def)
  from steps_buy_and_hold [OF this, of n] show ?thesis by (auto simp: reset_def Let_def)
qed

theorem buy_and_hold_never_trades_witness:
  "strategyName (loaded_store BUY_AND_HOLD [100, 90, 110]) = BUY_AND_HOLD \<and>
   (\<exists>s'. steps 2 (reset (loaded_store BUY_AND_HOLD [100, 90, 110])) = Inr s' \<and> currentIndex s' = 2 \<and>
      trades s' = [] \<and> cash s' = Fin 10000 \<and> shares s' = Fin 0)"
proof -
  have a: "strategyName (loaded_store BUY_AND_HOLD [100, 90, 110]) = BUY_AND_HOLD"
    by (simp add: loaded_store_def Let_def)
  have "\<exists>s'. steps 2 (reset (loaded_store BUY_AND_HOLD [100, 90, 110])) = Inr s' \<and> currentIndex s' = 2"
    by (simp add: numeral_2_eq_2 reset_def startIndexOf_def findIndex_def loaded_store_def plain_candle_def
       step_def atEnd_def decide_def elem_at_def Let_def)
  with buy_and_hold_never_trades [OF a, of 2] a show ?thesis by auto
qed

section \<open>Verification: the ledger's invariant\<close>







text \<open>
  The claim as stated allows a close of 0, and there it fails. Fifteen candles falling
  from 14 to 0 under the RSI strategy: \<^verbatim>\<open>computeRSI\<close> gives 50 up to index 13 and 0 at
  index 14, so the step to index 14 decides BUY at price 0; \<open>floor(10000 / 0)\<close> is
  \<^verbatim>\<open>Infinity\<close>, the shares become \<^verbatim>\<open>Infinity\<close> and the cash \<open>10000 - Infinity * 0\<close>
  is \<^verbatim>\<open>NaN\<close>.
\<close>

lemma falling_rsi:
  "computeRSI (map Fin [14, 13, 12, 11, 10, 9, 8, 7, 6, 5, 4, 3, 2, 1, 0]) 14
     = replicate 14 (Fin 50) @ [Fin 0]"
  by (simp add: computeRSI_def rsi_of_def max2_def jssub_def Let_def numeral_eq_Suc)


end
